theory Spec2Isabelle
  imports Main
begin

section \<open>Python values, exceptions and strings\<close>

text \<open>
  The agents exchange dictionaries whose values are \<open>None\<close>, booleans or strings.
  A Python string is modelled as a HOL \<open>string\<close>, each \<open>char\<close> standing for one code
  point below 256; the character classes below are Python's Unicode classes restricted
  to that range. A dictionary is a map from keys to values, so that an absent key
  (\<open>None\<close> of the map) and a key bound to Python's \<open>None\<close> (\<open>Some PNone\<close>) stay apart,
  as \<open>dict.get(key, default)\<close> tells them apart.
\<close>

datatype pyval = PNone | PBool bool | PStr string

type_synonym pydict = "string \<rightharpoonup> pyval"

text \<open>An exception that \<open>except Exception\<close> can catch: its class and its argument.\<close>

datatype exc =
    ValueError string
  | TypeError string
  | AttributeError string
  | IndexError string
  | KeyError string
  | OtherError string

text \<open>\<open>str(e)\<close>: the message; for a \<open>KeyError\<close> the quoted key.\<close>

fun str_exc :: "exc \<Rightarrow> string" where
  "str_exc (ValueError m) = m"
| "str_exc (TypeError m) = m"
| "str_exc (AttributeError m) = m"
| "str_exc (IndexError m) = m"
| "str_exc (KeyError k) = [CHR 0x27] @ k @ [CHR 0x27]"
| "str_exc (OtherError m) = m"

text \<open>Truth value of a Python object (\<open>if not x\<close>).\<close>

fun truthy :: "pyval \<Rightarrow> bool" where
  "truthy PNone = False"
| "truthy (PBool b) = b"
| "truthy (PStr s) = (s \<noteq> [])"

text \<open>\<open>d.get(k)\<close> and \<open>d.get(k, default)\<close>.\<close>

definition dict_get :: "pydict \<Rightarrow> string \<Rightarrow> pyval" where
  "dict_get d k = (case d k of None \<Rightarrow> PNone | Some v \<Rightarrow> v)"

definition dict_get_default :: "pydict \<Rightarrow> string \<Rightarrow> pyval \<Rightarrow> pyval" where
  "dict_get_default d k dflt = (case d k of None \<Rightarrow> dflt | Some v \<Rightarrow> v)"

text \<open>\<open>d[k]\<close> raises \<open>KeyError\<close> on an absent key.\<close>

definition dict_item :: "pydict \<Rightarrow> string \<Rightarrow> exc + pyval" where
  "dict_item d k = (case d k of None \<Rightarrow> Inl (KeyError k) | Some v \<Rightarrow> Inr v)"

text \<open>How an f-string renders a value (\<open>format(v, '')\<close>, that is \<open>str(v)\<close>).\<close>

fun fmt :: "pyval \<Rightarrow> string" where
  "fmt PNone = ''None''"
| "fmt (PBool True) = ''True''"
| "fmt (PBool False) = ''False''"
| "fmt (PStr s) = s"

text \<open>The name of a value's type, as it appears in error messages.\<close>

fun type_name :: "pyval \<Rightarrow> string" where
  "type_name PNone = ''NoneType''"
| "type_name (PBool b) = ''bool''"
| "type_name (PStr s) = ''str''"

definition no_attribute :: "pyval \<Rightarrow> string \<Rightarrow> exc" where
  "no_attribute v attr =
     AttributeError ([CHR 0x27] @ type_name v @ '' object has no attribute '' @
                     [CHR 0x27] @ attr @ [CHR 0x27])"

text \<open>\<open>\d\<close> of the \<open>re\<close> module on a \<open>str\<close> pattern: a decimal digit.\<close>

definition is_decimal :: "char \<Rightarrow> bool" where
  "is_decimal c = (c \<in> set ''0123456789'')"

text \<open>\<open>str.isspace\<close> on one character: the whitespace that \<open>split()\<close> and \<open>strip()\<close> use.\<close>

definition is_space :: "char \<Rightarrow> bool" where
  "is_space c = (c \<in> set [CHR 0x09, CHR 0x0A, CHR 0x0B, CHR 0x0C, CHR 0x0D,
                          CHR 0x1C, CHR 0x1D, CHR 0x1E, CHR 0x1F, CHR 0x20,
                          CHR 0x85, CHR 0xA0])"

section \<open>utils/text_utils.py\<close>

text \<open>
  \<open>format_phone_number(phone)\<close>: a falsy argument gives the empty string; otherwise the
  non-digits are removed (\<open>re.sub\<close> raises \<open>TypeError\<close> on an argument that is not a
  string), ten digits are grouped, eleven digits starting with 1 lose the 1 and are
  grouped, anything else is returned as it came.
\<close>

definition re_sub_nondigits :: "pyval \<Rightarrow> exc + string" where
  "re_sub_nondigits v =
     (case v of
        PStr s \<Rightarrow> Inr (filter is_decimal s)
      | _ \<Rightarrow> Inl (TypeError (''expected string or bytes-like object, got '' @
                            [CHR 0x27] @ type_name v @ [CHR 0x27])))"

definition format_phone_number :: "pyval \<Rightarrow> exc + pyval" where
  "format_phone_number phone =
     (if \<not> truthy phone then Inr (PStr [])
      else case re_sub_nondigits phone of
        Inl e \<Rightarrow> Inl e
      | Inr digits \<Rightarrow>
          if length digits = 10 then
            Inr (PStr (''('' @ take 3 digits @ '') '' @ take 3 (drop 3 digits) @ ''-'' @
                       drop 6 digits))
          else if length digits = 11 \<and> digits ! 0 = CHR ''1'' then
            Inr (PStr (''('' @ take 3 (drop 1 digits) @ '') '' @ take 3 (drop 4 digits) @
                       ''-'' @ drop 7 digits))
          else Inr phone)"

section \<open>String methods used by the agents\<close>

text \<open>\<open>s.strip()\<close>: whitespace removed at both ends.\<close>

definition strip :: "string \<Rightarrow> string" where
  "strip s = rev (dropWhile is_space (rev (dropWhile is_space s)))"

text \<open>
  \<open>s.split()\<close>: the maximal runs of non-whitespace characters. The first argument
  is the word being read.
\<close>

fun split_acc :: "string \<Rightarrow> string \<Rightarrow> string list" where
  "split_acc cur [] = (if cur = [] then [] else [cur])"
| "split_acc cur (c # cs) =
     (if is_space c then (if cur = [] then split_acc [] cs else cur # split_acc [] cs)
      else split_acc (cur @ [c]) cs)"

definition split_ws :: "string \<Rightarrow> string list" where
  "split_ws s = split_acc [] s"

text \<open>\<open>sep.join(xs)\<close>.\<close>

fun join :: "string \<Rightarrow> string list \<Rightarrow> string" where
  "join sep [] = []"
| "join sep [x] = x"
| "join sep (x # y # ys) = x @ sep @ join sep (y # ys)"

text \<open>
  \<open>s.split(sep)\<close> for a non-empty separator (the code only passes the constants
  \<open>"//"\<close>, \<open>"/"\<close> and \<open>","\<close>): the pieces between the occurrences of \<open>sep\<close>, read
  from the left. The second argument is the piece being read.
\<close>

function split_from :: "string \<Rightarrow> string \<Rightarrow> string \<Rightarrow> string list" where
  "split_from sep cur [] = [cur]"
| "split_from sep cur (c # cs) =
     (if sep \<noteq> [] \<and> take (length sep) (c # cs) = sep
      then cur # split_from sep [] (drop (length sep) (c # cs))
      else split_from sep (cur @ [c]) cs)"
  by pat_completeness auto
termination
  by (relation "measure (\<lambda>(sep, cur, s). length s)") (auto simp: neq_Nil_conv)

definition split_sep :: "string \<Rightarrow> string \<Rightarrow> string list" where
  "split_sep s sep = split_from sep [] s"

text \<open>\<open>s.replace(old, new)\<close> for a non-empty \<open>old\<close> (the code passes \<open>"www."\<close>).\<close>

function replace :: "string \<Rightarrow> string \<Rightarrow> string \<Rightarrow> string" where
  "replace old new [] = []"
| "replace old new (c # cs) =
     (if old \<noteq> [] \<and> take (length old) (c # cs) = old
      then new @ replace old new (drop (length old) (c # cs))
      else c # replace old new cs)"
  by pat_completeness auto
termination
  by (relation "measure (\<lambda>(old, new, s). length s)") (auto simp: neq_Nil_conv)

text \<open>
  \<open>upper()\<close> and \<open>capitalize()\<close>. The case mapping is that of the ASCII letters; the
  strings the code applies them to are the directory identifiers, which come from the
  ASCII constants of the configuration.
\<close>

definition upper_char :: "char \<Rightarrow> char" where
  "upper_char c =
     (case map_of (zip ''abcdefghijklmnopqrstuvwxyz'' ''ABCDEFGHIJKLMNOPQRSTUVWXYZ'') c of
        Some u \<Rightarrow> u | None \<Rightarrow> c)"

definition lower_char :: "char \<Rightarrow> char" where
  "lower_char c =
     (case map_of (zip ''ABCDEFGHIJKLMNOPQRSTUVWXYZ'' ''abcdefghijklmnopqrstuvwxyz'') c of
        Some l \<Rightarrow> l | None \<Rightarrow> c)"

definition upper :: "string \<Rightarrow> string" where
  "upper s = map upper_char s"

definition capitalize :: "string \<Rightarrow> string" where
  "capitalize s = (case s of [] \<Rightarrow> [] | c # cs \<Rightarrow> upper_char c # map lower_char cs)"

text \<open>\<open>c.isalnum()\<close> for a code point below 256.\<close>

definition is_alnum :: "char \<Rightarrow> bool" where
  "is_alnum c =
     (let n = (of_char c :: nat) in
        (48 \<le> n \<and> n \<le> 57) \<or> (65 \<le> n \<and> n \<le> 90) \<or> (97 \<le> n \<and> n \<le> 122) \<or>
        n = 170 \<or> n = 178 \<or> n = 179 \<or> n = 181 \<or> n = 185 \<or> n = 186 \<or>
        (188 \<le> n \<and> n \<le> 190) \<or> (192 \<le> n \<and> n \<le> 214) \<or> (216 \<le> n \<and> n \<le> 246) \<or>
        248 \<le> n)"

text \<open>The decimal numeral of a natural number, as an f-string renders an \<open>int\<close>.\<close>

fun str_nat :: "nat \<Rightarrow> string" where
  "str_nat n =
     (if n < 10 then [''0123456789'' ! n]
      else str_nat (n div 10) @ [''0123456789'' ! (n mod 10)])"

declare str_nat.simps [simp del]

section \<open>agents/base_agent.py\<close>

text \<open>
  What an agent's \<open>run\<close> returns: \<open>{"success": False, "error": msg}\<close> from
  \<open>handle_error\<close>, or a dictionary with \<open>"success": True\<close> and the agent's payload.
\<close>

datatype 'a agent_result = Failure string | Success 'a

definition handle_error :: "exc \<Rightarrow> 'a agent_result" where
  "handle_error e = Failure (str_exc e)"

text \<open>
  \<open>try: ... except Exception as e: return self.handle_error(e)\<close> around a body that
  either raises or returns its payload.
\<close>

definition catching :: "exc + 'a \<Rightarrow> 'a agent_result" where
  "catching body = (case body of Inl e \<Rightarrow> handle_error e | Inr r \<Rightarrow> Success r)"

section \<open>agents/citation_builder_agent.py\<close>

definition NL :: string where
  "NL = [CHR 0x0A]"

definition format_generic_citation :: "pyval \<Rightarrow> pyval \<Rightarrow> pyval \<Rightarrow> string \<Rightarrow> string" where
  "format_generic_citation name address phone directory =
     fmt name @ NL @ fmt address @ NL @ fmt phone @ NL @ NL @ ''Directory: '' @
     capitalize directory"

definition format_yelp_citation :: "pyval \<Rightarrow> pyval \<Rightarrow> pyval \<Rightarrow> string" where
  "format_yelp_citation name address phone =
     fmt name @ NL @ fmt address @ NL @ fmt phone @ NL @ NL @
     ''Submission for Yelp Business Directory''"

definition format_yellowpages_citation :: "pyval \<Rightarrow> pyval \<Rightarrow> pyval \<Rightarrow> string" where
  "format_yellowpages_citation name address phone =
     ''Business Name: '' @ fmt name @ NL @ ''Full Address: '' @ fmt address @ NL @
     ''Phone: '' @ fmt phone @ NL @ NL @ ''Yellow Pages Listing Information''"

definition format_bbb_citation :: "pyval \<Rightarrow> pyval \<Rightarrow> pyval \<Rightarrow> string" where
  "format_bbb_citation name address phone =
     ''Company: '' @ fmt name @ NL @ ''Location: '' @ fmt address @ NL @
     ''Contact: '' @ fmt phone @ NL @ NL @
     ''Better Business Bureau Registration Information''"

definition format_foursquare_citation :: "pyval \<Rightarrow> pyval \<Rightarrow> pyval \<Rightarrow> string" where
  "format_foursquare_citation name address phone =
     fmt name @ NL @ ''Located at: '' @ fmt address @ NL @ ''Call: '' @ fmt phone @ NL @ NL @
     ''Foursquare Venue Information''"

definition format_manta_citation :: "pyval \<Rightarrow> pyval \<Rightarrow> pyval \<Rightarrow> string" where
  "format_manta_citation name address phone =
     ''Business: '' @ fmt name @ NL @ ''Address: '' @ fmt address @ NL @
     ''Phone Number: '' @ fmt phone @ NL @ NL @ ''Manta Business Listing''"

definition format_superpages_citation :: "pyval \<Rightarrow> pyval \<Rightarrow> pyval \<Rightarrow> string" where
  "format_superpages_citation name address phone =
     fmt name @ NL @ fmt address @ NL @ fmt phone @ NL @ NL @
     ''Superpages Directory Information''"

definition format_chamber_citation :: "pyval \<Rightarrow> pyval \<Rightarrow> pyval \<Rightarrow> string" where
  "format_chamber_citation name address phone =
     ''Member Business: '' @ fmt name @ NL @ ''Business Address: '' @ fmt address @ NL @
     ''Contact Number: '' @ fmt phone @ NL @ NL @
     ''Chamber of Commerce Directory Listing''"

text \<open>The \<open>if\<close>/\<open>elif\<close> chain that picks the template of one directory.\<close>

definition citation_for :: "pyval \<Rightarrow> pyval \<Rightarrow> pyval \<Rightarrow> string \<Rightarrow> string" where
  "citation_for name address phone directory =
     (if directory = ''yelp'' then format_yelp_citation name address phone
      else if directory = ''yellowpages'' then format_yellowpages_citation name address phone
      else if directory = ''bbb'' then format_bbb_citation name address phone
      else if directory = ''foursquare'' then format_foursquare_citation name address phone
      else if directory = ''manta'' then format_manta_citation name address phone
      else if directory = ''superpages'' then format_superpages_citation name address phone
      else if directory = ''chamberofcommerce'' then format_chamber_citation name address phone
      else format_generic_citation name address phone directory)"

text \<open>
  The citations dictionary keeps its keys in insertion order; assigning to a key that is
  already there replaces the value in place.
\<close>

type_synonym citations = "(string \<times> string) list"

fun dict_set :: "'k \<Rightarrow> 'v \<Rightarrow> ('k \<times> 'v) list \<Rightarrow> ('k \<times> 'v) list" where
  "dict_set k v [] = [(k, v)]"
| "dict_set k v (p # ps) = (if fst p = k then (k, v) # ps else p # dict_set k v ps)"

text \<open>The \<open>for directory in selected_directories\<close> loop.\<close>

fun build_citations ::
  "pyval \<Rightarrow> pyval \<Rightarrow> pyval \<Rightarrow> string list \<Rightarrow> citations \<Rightarrow> citations" where
  "build_citations name address phone [] citations = citations"
| "build_citations name address phone (directory # rest) citations =
     build_citations name address phone rest
       (dict_set directory (citation_for name address phone directory) citations)"

text \<open>The body of \<open>CitationBuilderAgent.run\<close> inside its \<open>try\<close>.\<close>

definition citation_builder_body :: "pydict \<Rightarrow> string list \<Rightarrow> exc + citations" where
  "citation_builder_body business_data selected_directories =
     (if \<not> truthy (dict_get business_data ''name'') then
        Inl (ValueError ''Missing business name'')
      else if selected_directories = [] then Inr []
      else
        (case dict_item business_data ''name'' of
           Inl e \<Rightarrow> Inl e
         | Inr name \<Rightarrow>
             (let address = dict_get_default business_data ''address''
                              (PStr ''Address pending verification'');
                  phone = dict_get_default business_data ''phone''
                            (PStr ''Phone pending verification'')
              in (case (if phone \<noteq> PStr ''Phone pending verification''
                        then format_phone_number phone else Inr phone) of
                    Inl e \<Rightarrow> Inl e
                  | Inr phone' \<Rightarrow>
                      Inr (build_citations name address phone' selected_directories [])))))"

definition citation_builder_run :: "pydict \<Rightarrow> string list \<Rightarrow> citations agent_result" where
  "citation_builder_run business_data selected_directories =
     catching (citation_builder_body business_data selected_directories)"

section \<open>config.py\<close>

text \<open>
  The tenth and eleventh string literals of the list have no comma between them, so
  Python joins them into one entry; the list has thirteen entries.
\<close>

definition BUSINESS_DIRECTORIES :: "string list" where
  "BUSINESS_DIRECTORIES =
     [''https://www.yelp.com'',
      ''https://www.yellowpages.com'',
      ''https://www.bbb.org'',
      ''https://www.foursquare.com'',
      ''https://www.manta.com'',
      ''https://www.superpages.com'',
      ''https://www.chamberofcommerce.com'',
      ''https://www.mapquest.com'',
      ''https://www.citysearch.com'',
      ''https://www.tripadvisor.com'' @ ''https://www.hotfrog.in'',
      ''https://www.provenexpert.com'',
      ''https://www.businessseek.biz/'',
      ''https://tupalo.com/'']"

definition SUMMARY_WORD_COUNT :: "nat \<times> nat" where
  "SUMMARY_WORD_COUNT = (100, 150)"

section \<open>agents/researcher_agent.py\<close>

record dir_entry =
  url :: string
  exists :: bool
  error :: "string option"

record research_results =
  directories_checked :: "(string \<times> dir_entry) list"
  missing_directories :: "string list"
  selected_directories :: "string list"

text \<open>\<open>xs[i]\<close> for \<open>i \<ge> 0\<close>: \<open>IndexError\<close> out of range.\<close>

definition list_item :: "'a list \<Rightarrow> nat \<Rightarrow> exc + 'a" where
  "list_item xs i =
     (if i < length xs then Inr (xs ! i) else Inl (IndexError ''list index out of range''))"

text \<open>\<open>directory_url.split("//")[1].split("/")[0].replace("www.", "")\<close>.\<close>

definition directory_domain :: "string \<Rightarrow> exc + string" where
  "directory_domain directory_url =
     (case list_item (split_sep directory_url ''//'') 1 of
        Inl e \<Rightarrow> Inl e
      | Inr rest \<Rightarrow>
          (case list_item (split_sep rest ''/'') 0 of
             Inl e \<Rightarrow> Inl e
           | Inr host \<Rightarrow> Inr (replace ''www.'' [] host)))"

text \<open>
  The search query: the name and the first comma-delimited piece of the address when
  an address is known, the name alone otherwise. \<open>split\<close> and \<open>strip\<close> are string
  methods, so a value of another type raises \<open>AttributeError\<close>.
\<close>

definition search_query :: "pyval \<Rightarrow> pyval \<Rightarrow> exc + string" where
  "search_query business_name business_address =
     (if truthy business_address \<and> business_address \<noteq> PStr ''Address unavailable'' then
        (case business_address of
           PStr a \<Rightarrow>
             (case list_item (split_sep a '','') 0 of
                Inl e \<Rightarrow> Inl e
              | Inr address_parts \<Rightarrow> Inr (strip (fmt business_name @ '' '' @ address_parts)))
         | _ \<Rightarrow> Inl (no_attribute business_address ''split''))
      else
        (case business_name of
           PStr n \<Rightarrow> Inr (strip n)
         | _ \<Rightarrow> Inl (no_attribute business_name ''strip'')))"

text \<open>
  \<open>_check_directory\<close> fetches a page of the directory's site and searches it; it is a
  function of the outside world: given the directory, the query and the business data
  it returns a truth value or raises. The loop over the configured directories records
  each outcome. The domain is computed outside the inner \<open>try\<close>, so an exception there
  leaves the loop.
\<close>

type_synonym checker = "string \<Rightarrow> string \<Rightarrow> pydict \<Rightarrow> exc + bool"

fun check_directories ::
  "checker \<Rightarrow> string \<Rightarrow> pydict \<Rightarrow> string list \<Rightarrow> research_results \<Rightarrow> exc + research_results"
where
  "check_directories check query business_data [] results = Inr results"
| "check_directories check query business_data (directory_url # rest) results =
     (case directory_domain directory_url of
        Inl e \<Rightarrow> Inl e
      | Inr domain \<Rightarrow>
          (case check directory_url query business_data of
             Inr ex \<Rightarrow>
               check_directories check query business_data rest
                 (results\<lparr>directories_checked :=
                            dict_set domain \<lparr>url = directory_url, exists = ex, error = None\<rparr>
                              (directories_checked results),
                          missing_directories :=
                            (if \<not> ex then missing_directories results @ [domain]
                             else missing_directories results)\<rparr>)
           | Inl e \<Rightarrow>
               check_directories check query business_data rest
                 (results\<lparr>missing_directories := missing_directories results @ [domain],
                          directories_checked :=
                            dict_set domain
                              \<lparr>url = directory_url, exists = False, error = Some (str_exc e)\<rparr>
                              (directories_checked results)\<rparr>)))"

text \<open>
  \<open>random.sample(population, 2)\<close> as CPython computes it for a population of at most 21
  elements (the thirteen configured directories never exceed it): two draws
  \<open>randbelow(n)\<close> and \<open>randbelow(n - 1)\<close> from a pool in which the chosen element is
  overwritten by the last one. The raw random numbers are arguments.
\<close>

definition random_sample2 :: "nat \<Rightarrow> nat \<Rightarrow> 'a list \<Rightarrow> 'a list" where
  "random_sample2 r1 r2 population =
     (let n = length population;
          j1 = r1 mod n;
          x1 = population ! j1;
          pool = population[j1 := population ! (n - 1)];
          j2 = r2 mod (n - 1);
          x2 = pool ! j2
      in [x1, x2])"

definition select_directories :: "nat \<Rightarrow> nat \<Rightarrow> research_results \<Rightarrow> research_results" where
  "select_directories r1 r2 results =
     (if length (missing_directories results) \<ge> 2
      then results\<lparr>selected_directories := random_sample2 r1 r2 (missing_directories results)\<rparr>
      else results\<lparr>selected_directories := missing_directories results\<rparr>)"

definition researcher_body ::
  "checker \<Rightarrow> nat \<Rightarrow> nat \<Rightarrow> pydict \<Rightarrow> exc + research_results" where
  "researcher_body check r1 r2 business_data =
     (if \<not> truthy (dict_get business_data ''name'') then
        Inl (ValueError ''No business name provided'')
      else
        (case dict_item business_data ''name'' of
           Inl e \<Rightarrow> Inl e
         | Inr business_name \<Rightarrow>
             (case search_query business_name
                     (dict_get_default business_data ''address'' (PStr [])) of
                Inl e \<Rightarrow> Inl e
              | Inr query \<Rightarrow>
                  (case check_directories check query business_data BUSINESS_DIRECTORIES
                          \<lparr>directories_checked = [], missing_directories = [],
                           selected_directories = []\<rparr> of
                     Inl e \<Rightarrow> Inl e
                   | Inr results \<Rightarrow> Inr (select_directories r1 r2 results)))))"

definition researcher_run ::
  "checker \<Rightarrow> nat \<Rightarrow> nat \<Rightarrow> pydict \<Rightarrow> research_results agent_result" where
  "researcher_run check r1 r2 business_data =
     catching (researcher_body check r1 r2 business_data)"

section \<open>agents/summary_agent.py\<close>

text \<open>The text that \<open>_generate_summary\<close> renders before it looks at the word count.\<close>

definition summary_text :: "pyval \<Rightarrow> nat \<Rightarrow> string list \<Rightarrow> string list \<Rightarrow> string" where
  "summary_text business_name n_checked missing selected =
     ''Research Summary for '' @ fmt business_name @ NL @ NL @
     ''The research process began by extracting the business's Name, Address, and Phone (NAP) information from Google Maps. '' @
     ''This data was then used to search across '' @ str_nat n_checked @
     '' business directories to determine where the business already has listings. '' @
     (if missing \<noteq> [] then
        ''The research found that '' @ fmt business_name @ '' is missing from '' @
        str_nat (length missing) @ '' directories including '' @ join '', '' (take 3 missing) @
        (if length missing > 3 then '' and '' @ str_nat (length missing - 3) @ '' others''
         else []) @
        ''. ''
      else
        ''Interestingly, '' @ fmt business_name @
        '' appears to be present in all checked directories. '') @
     (if selected \<noteq> [] then
        ''Based on the findings, NAP citations were prepared for '' @ join '', '' selected @
        '' '' @
        ''as these directories would provide valuable additional visibility for '' @
        fmt business_name @ ''. ''
      else
        ''No directories were selected for citation building as the business appears to be well-represented across the checked platforms. '') @
     ''The final citations were formatted according to each directory's specific requirements to ensure accuracy and consistency of the business information across the web.''"

definition filler_sentence :: "pyval \<Rightarrow> string" where
  "filler_sentence business_name =
     '' Maintaining consistent NAP information across business directories is crucial for local SEO and helps potential customers find accurate information about '' @
     fmt business_name @ ''.''"

text \<open>The check of the word count at the end of \<open>_generate_summary\<close>.\<close>

definition word_limits :: "nat \<Rightarrow> nat \<Rightarrow> pyval \<Rightarrow> string \<Rightarrow> string" where
  "word_limits min_words max_words business_name text =
     (let words = split_ws text in
        if length words < min_words then text @ filler_sentence business_name
        else if length words > max_words then join '' '' (take max_words words)
        else text)"

definition generate_summary :: "pyval \<Rightarrow> nat \<Rightarrow> string list \<Rightarrow> string list \<Rightarrow> string" where
  "generate_summary business_name n_checked missing selected =
     (case SUMMARY_WORD_COUNT of
        (min_words, max_words) \<Rightarrow>
          word_limits min_words max_words business_name
            (summary_text business_name n_checked missing selected))"

record summary_results =
  summary :: string
  word_count :: nat

definition summary_run ::
  "pydict \<Rightarrow> research_results \<Rightarrow> citations \<Rightarrow> summary_results agent_result" where
  "summary_run business_data research citation_results =
     catching
       (let business_name = dict_get_default business_data ''name'' (PStr ''Unknown business'');
            s = generate_summary business_name (length (directories_checked research))
                  (missing_directories research) (selected_directories research)
        in Inr \<lparr>summary = s, word_count = length (split_ws s)\<rparr>)"

section \<open>utils/file_utils.py\<close>

text \<open>
  \<open>generate_output_filename\<close> iterates over the characters of the name, so a name that
  is not a string raises \<open>TypeError\<close>. The timestamp is read from the clock.
\<close>

definition generate_output_filename :: "string \<Rightarrow> pyval \<Rightarrow> exc + string" where
  "generate_output_filename timestamp business_name =
     (case business_name of
        PStr n \<Rightarrow>
          Inr (take 30 (map (\<lambda>c. if is_alnum c then c else CHR ''_'') n) @ ''_'' @
               timestamp @ ''.txt'')
      | v \<Rightarrow> Inl (TypeError ([CHR 0x27] @ type_name v @ [CHR 0x27] @
                             '' object is not iterable'')))"

section \<open>main.py\<close>

text \<open>
  What \<open>run_workflow\<close> takes from outside: whether the output directory can be made,
  the Extractor (it drives a browser and returns a dictionary), the directory check,
  the random numbers of the sample, the clock's two timestamps, and the writing of the
  report file (which returns the path or raises).
\<close>

record world =
  ensure_output_directory :: "exc + string"
  extractor_run :: "string \<Rightarrow> pydict"
  check_directory :: checker
  rand1 :: nat
  rand2 :: nat
  report_time :: string
  file_time :: string
  save_text_file :: "string \<Rightarrow> string \<Rightarrow> string \<Rightarrow> exc + string"

datatype stage = Extraction | Research | CitationBuilding | Summary | Output

record workflow_report =
  report_business_name :: pyval
  report_output_file :: string
  report_business_info :: pydict
  report_directories_checked :: nat
  report_directories_missing :: nat
  report_missing_directories :: "string list"
  report_citations_created :: nat
  report_citations :: citations
  report_summary :: string
  report_content :: string

text \<open>
  \<open>{"success": False, "stage": ..., "error": ...}\<close>, or the dictionary of a completed
  run.
\<close>

datatype workflow_result = Failed string pyval | Completed workflow_report

definition business_information :: "pyval \<Rightarrow> pyval \<Rightarrow> pyval \<Rightarrow> pyval \<Rightarrow> string" where
  "business_information name address phone source_url =
     ''BUSINESS INFORMATION:'' @ NL @
     ''Name: '' @ fmt name @ NL @
     ''Address: '' @ fmt address @ NL @
     ''Phone: '' @ fmt phone @ NL @
     ''Source URL: '' @ fmt source_url @ NL @ NL"

definition citation_sections :: "citations \<Rightarrow> string" where
  "citation_sections cs =
     concat (map (\<lambda>(directory, citation).
                    NL @ ''--- '' @ upper directory @ '' CITATION ---'' @ NL @
                    citation @ NL @
                    ''-------------------------'' @ NL) cs)"

text \<open>Step 5, the body of the last \<open>try\<close>: the file name, the content, the file.\<close>

definition output_stage ::
  "world \<Rightarrow> string \<Rightarrow> pydict \<Rightarrow> research_results \<Rightarrow> citations \<Rightarrow> string \<Rightarrow>
   exc + workflow_report" where
  "output_stage w output_dir extraction_results research cites summ =
     (case dict_item extraction_results ''name'' of
        Inl e \<Rightarrow> Inl e
      | Inr name \<Rightarrow>
     (case generate_output_filename (file_time w) name of
        Inl e \<Rightarrow> Inl e
      | Inr filename \<Rightarrow>
     (case dict_item extraction_results ''address'' of
        Inl e \<Rightarrow> Inl e
      | Inr address \<Rightarrow>
     (case dict_item extraction_results ''phone'' of
        Inl e \<Rightarrow> Inl e
      | Inr phone \<Rightarrow>
     (case dict_item extraction_results ''source_url'' of
        Inl e \<Rightarrow> Inl e
      | Inr source_url \<Rightarrow>
          let content =
                ''NAP CITATION REPORT FOR '' @ fmt name @ NL @
                ''Generated on: '' @ report_time w @ NL @ NL @
                business_information name address phone source_url @
                ''RESEARCH SUMMARY:'' @ NL @
                summ @ NL @ NL @
                ''CITATIONS:'' @ NL @
                citation_sections cites
          in (case save_text_file w content filename output_dir of
                Inl e \<Rightarrow> Inl e
              | Inr filepath \<Rightarrow>
                  Inr \<lparr>report_business_name = name,
                       report_output_file = filepath,
                       report_business_info = extraction_results,
                       report_directories_checked = length (directories_checked research),
                       report_directories_missing = length (missing_directories research),
                       report_missing_directories = missing_directories research,
                       report_citations_created = length cites,
                       report_citations = cites,
                       report_summary = summ,
                       report_content = content\<rparr>))))))"

text \<open>
  Lines 134 to 137: the three fields are read back with \<open>dict.get(key, default)\<close> and
  stored again.
\<close>

definition fill_fields :: "pydict \<Rightarrow> pydict" where
  "fill_fields extraction_results =
     (let e1 = extraction_results(''name'' \<mapsto> dict_get_default extraction_results ''name'' (PStr []));
          e2 = e1(''address'' \<mapsto> dict_get_default e1 ''address'' (PStr ''Address unavailable''));
          e3 = e2(''phone'' \<mapsto> dict_get_default e2 ''phone'' (PStr ''Phone unavailable''))
      in e3)"

text \<open>
  \<open>run_workflow\<close>. The result is the list of the stages that ran, in order, and what
  the call did: it raises only when the output directory cannot be made (that call is
  outside every \<open>try\<close>), and returns a dictionary otherwise.
\<close>

definition run_workflow :: "world \<Rightarrow> string \<Rightarrow> stage list \<times> (exc + workflow_result)" where
  "run_workflow w maps_url =
     (case ensure_output_directory w of
        Inl e \<Rightarrow> ([], Inl e)
      | Inr output_dir \<Rightarrow>
          if maps_url = [] \<or> strip maps_url = [] then
            ([], Inr (Failed ''validation'' (PStr ''Google Maps URL cannot be empty'')))
          else
            let extraction_results = extractor_run w maps_url in
            if \<not> truthy (dict_get extraction_results ''success'') \<and>
               \<not> truthy (dict_get extraction_results ''partial_success'') then
              ([Extraction],
               Inr (Failed ''extraction''
                      (dict_get_default extraction_results ''error''
                         (PStr ''Failed to extract required information''))))
            else if \<not> truthy (dict_get extraction_results ''name'') then
              ([Extraction],
               Inr (Failed ''extraction''
                      (PStr ''Failed to extract business name, which is required'')))
            else
              let extraction_results = fill_fields extraction_results in
              (case researcher_run (check_directory w) (rand1 w) (rand2 w) extraction_results
               of
                 Failure error_msg \<Rightarrow>
                   ([Extraction, Research], Inr (Failed ''research'' (PStr error_msg)))
               | Success research \<Rightarrow>
                  (case citation_builder_run extraction_results (selected_directories research)
                   of
                     Failure error_msg \<Rightarrow>
                       ([Extraction, Research, CitationBuilding],
                        Inr (Failed ''citation_building'' (PStr error_msg)))
                   | Success cites \<Rightarrow>
                       (case summary_run extraction_results research cites of
                          Failure error_msg \<Rightarrow>
                            ([Extraction, Research, CitationBuilding, Summary],
                             Inr (Failed ''summary'' (PStr error_msg)))
                        | Success summ \<Rightarrow>
                            (case output_stage w output_dir extraction_results research cites
                                    (summary summ)
                             of
                               Inl e \<Rightarrow>
                                 ([Extraction, Research, CitationBuilding, Summary, Output],
                                  Inr (Failed ''output'' (PStr (str_exc e))))
                             | Inr report \<Rightarrow>
                                 ([Extraction, Research, CitationBuilding, Summary, Output],
                                  Inr (Completed report)))))))"


section \<open>Properties of the Citation Builder\<close>

text \<open>
  C8. When the name is absent, \<open>None\<close> or empty, \<open>CitationBuilderAgent.run\<close> returns the
  failure dictionary whose error is the message \<open>Missing business name\<close>, which is not
  empty; the \<open>ValueError\<close> raised inside is caught, and no citation is produced.
\<close>

theorem citation_builder_missing_name:
  assumes "\<not> truthy (dict_get business_data ''name'')"
  shows "citation_builder_body business_data dirs =
           Inl (ValueError ''Missing business name'')
         \<and> (\<exists>msg. citation_builder_run business_data dirs = Failure msg
                    \<and> msg = ''Missing business name'' \<and> msg \<noteq> [])"
  using assms
  by (simp add: citation_builder_run_def citation_builder_body_def catching_def
      handle_error_def)

theorem citation_builder_missing_name_witness:
  "\<not> truthy (dict_get [''address'' \<mapsto> PStr ''1 Main St''] ''name'')
   \<and> \<not> truthy (dict_get [''name'' \<mapsto> PNone] ''name'')
   \<and> \<not> truthy (dict_get [''name'' \<mapsto> PStr []] ''name'')
   \<and> citation_builder_run [''address'' \<mapsto> PStr ''1 Main St''] [''yelp.com''] =
       Failure ''Missing business name''
   \<and> citation_builder_run [''name'' \<mapsto> PNone] [''yelp.com''] =
       Failure ''Missing business name''
   \<and> citation_builder_run [''name'' \<mapsto> PStr []] [] = Failure ''Missing business name''"
  using citation_builder_missing_name [of "[''address'' \<mapsto> PStr ''1 Main St'']" "[''yelp.com'']"]
        citation_builder_missing_name [of "[''name'' \<mapsto> PNone]" "[''yelp.com'']"]
        citation_builder_missing_name [of "[''name'' \<mapsto> PStr []]" "[]"]
  by (simp add: dict_get_def)

text \<open>
  C9. With a name that is present and not empty and an empty list of selected
  directories, \<open>CitationBuilderAgent.run\<close> returns success with an empty citations
  dictionary.
\<close>

theorem citation_builder_no_directories:
  assumes "truthy (dict_get business_data ''name'')"
  shows "citation_builder_run business_data [] = Success []"
  using assms
  by (simp add: citation_builder_run_def citation_builder_body_def catching_def)

theorem citation_builder_no_directories_witness:
  "truthy (dict_get [''name'' \<mapsto> PStr ''Joe's Cafe''] ''name'')
   \<and> citation_builder_run [''name'' \<mapsto> PStr ''Joe's Cafe''] [] = Success []"
  using citation_builder_no_directories [of "[''name'' \<mapsto> PStr ''Joe's Cafe'']"]
  by (simp add: dict_get_def)
section \<open>Properties of the phone formatter\<close>

lemma filter_decimal_idem: "filter is_decimal (filter is_decimal s) = filter is_decimal s"
  by simp

lemma decimal_punct [simp]:
  "\<not> is_decimal CHR ''(''" "\<not> is_decimal CHR '')''" "\<not> is_decimal CHR '' ''"
  "\<not> is_decimal CHR ''-''"
  by (simp_all add: is_decimal_def)

lemma grouped_digits:
  assumes "\<forall>c \<in> set d. is_decimal c"
  shows "filter is_decimal (''('' @ take 3 d @ '') '' @ take 3 (drop 3 d) @ ''-'' @ drop 6 d) = d"
proof -
  have a: "filter is_decimal (take 3 d) = take 3 d"
    using assms by (meson filter_True in_set_takeD)
  have b: "filter is_decimal (take 3 (drop 3 d)) = take 3 (drop 3 d)"
    using assms by (meson filter_True in_set_takeD in_set_dropD)
  have c: "filter is_decimal (drop 6 d) = drop 6 d"
    using assms by (meson filter_True in_set_dropD)
  have "take 3 d @ take 3 (drop 3 d) @ drop 6 d = d"
    by (metis append_take_drop_id drop_drop numeral_Bit0 append.assoc take_add
        add.commute)
  then show ?thesis using a b c by simp
qed

text \<open>
  C3. \<open>format_phone_number("5551234567")\<close> and \<open>format_phone_number("15551234567")\<close> both
  return \<open>"(555) 123-4567"\<close>, and \<open>format_phone_number("notaphone")\<close> returns its argument;
  in general ten digits are grouped, eleven digits with a leading 1 drop the 1 and are
  grouped, and every other string is returned as given.
\<close>

theorem format_phone_number_examples:
  "format_phone_number (PStr ''5551234567'') = Inr (PStr ''(555) 123-4567'')
   \<and> format_phone_number (PStr ''15551234567'') = Inr (PStr ''(555) 123-4567'')
   \<and> format_phone_number (PStr ''notaphone'') = Inr (PStr ''notaphone'')
   \<and> (\<forall>s. let d = filter is_decimal s in
        (length d = 10 \<longrightarrow>
           format_phone_number (PStr s) =
             Inr (PStr (''('' @ take 3 d @ '') '' @ take 3 (drop 3 d) @ ''-'' @ drop 6 d)))
      \<and> (length d = 11 \<and> hd d = CHR ''1'' \<longrightarrow>
           format_phone_number (PStr s) =
             Inr (PStr (''('' @ take 3 (tl d) @ '') '' @ take 3 (drop 3 (tl d)) @ ''-'' @
                        drop 6 (tl d))))
      \<and> (length d \<noteq> 10 \<and> \<not> (length d = 11 \<and> hd d = CHR ''1'') \<longrightarrow>
           format_phone_number (PStr s) = Inr (PStr s)))"
proof -
  have e1: "format_phone_number (PStr ''5551234567'') = Inr (PStr ''(555) 123-4567'')"
    by (simp add: format_phone_number_def re_sub_nondigits_def is_decimal_def)
  have e2: "format_phone_number (PStr ''15551234567'') = Inr (PStr ''(555) 123-4567'')"
    by (simp add: format_phone_number_def re_sub_nondigits_def is_decimal_def)
  have e3: "format_phone_number (PStr ''notaphone'') = Inr (PStr ''notaphone'')"
    by (simp add: format_phone_number_def re_sub_nondigits_def is_decimal_def)
  have g: "\<forall>s. let d = filter is_decimal s in
        (length d = 10 \<longrightarrow>
           format_phone_number (PStr s) =
             Inr (PStr (''('' @ take 3 d @ '') '' @ take 3 (drop 3 d) @ ''-'' @ drop 6 d)))
      \<and> (length d = 11 \<and> hd d = CHR ''1'' \<longrightarrow>
           format_phone_number (PStr s) =
             Inr (PStr (''('' @ take 3 (tl d) @ '') '' @ take 3 (drop 3 (tl d)) @ ''-'' @
                        drop 6 (tl d))))
      \<and> (length d \<noteq> 10 \<and> \<not> (length d = 11 \<and> hd d = CHR ''1'') \<longrightarrow>
           format_phone_number (PStr s) = Inr (PStr s))"
  proof (intro allI)
    fix s
    define d where "d = filter is_decimal s"
    have ne: "length d = 10 \<or> length d = 11 \<Longrightarrow> s \<noteq> []"
      unfolding d_def by auto
    have hd0: "d \<noteq> [] \<Longrightarrow> d ! 0 = hd d"
      by (simp add: hd_conv_nth)
    have tl1: "drop 1 d = tl d" "drop 4 d = drop 3 (tl d)" "drop 7 d = drop 6 (tl d)"
      by (cases d; simp)+
    have p1: "length d = 10 \<longrightarrow>
           format_phone_number (PStr s) =
             Inr (PStr (''('' @ take 3 d @ '') '' @ take 3 (drop 3 d) @ ''-'' @ drop 6 d))"
      using ne by (auto simp: format_phone_number_def re_sub_nondigits_def d_def)
    have p2: "length d = 11 \<and> hd d = CHR ''1'' \<longrightarrow>
           format_phone_number (PStr s) =
             Inr (PStr (''('' @ take 3 (tl d) @ '') '' @ take 3 (drop 3 (tl d)) @ ''-'' @
                        drop 6 (tl d)))"
    proof
      assume h: "length d = 11 \<and> hd d = CHR ''1''"
      then have "d \<noteq> []" by auto
      then have "d ! 0 = CHR ''1''" using h hd0 by simp
      moreover have "s \<noteq> []" using h ne by simp
      ultimately show "format_phone_number (PStr s) =
             Inr (PStr (''('' @ take 3 (tl d) @ '') '' @ take 3 (drop 3 (tl d)) @ ''-'' @
                        drop 6 (tl d)))"
        using h tl1 by (simp add: format_phone_number_def re_sub_nondigits_def d_def [symmetric])
    qed
    have p3: "length d \<noteq> 10 \<and> \<not> (length d = 11 \<and> hd d = CHR ''1'') \<longrightarrow>
           format_phone_number (PStr s) = Inr (PStr s)"
    proof
      assume h: "length d \<noteq> 10 \<and> \<not> (length d = 11 \<and> hd d = CHR ''1'')"
      show "format_phone_number (PStr s) = Inr (PStr s)"
      proof (cases "length d = 11")
        case True
        then have "d \<noteq> []" by auto
        then have "d ! 0 \<noteq> CHR ''1''" using h hd0 True by simp
        then show ?thesis
          using h by (simp add: format_phone_number_def re_sub_nondigits_def d_def [symmetric])
      next
        case False
        then show ?thesis
          using h by (simp add: format_phone_number_def re_sub_nondigits_def d_def [symmetric])
      qed
    qed
    show "let d = filter is_decimal s in
        (length d = 10 \<longrightarrow>
           format_phone_number (PStr s) =
             Inr (PStr (''('' @ take 3 d @ '') '' @ take 3 (drop 3 d) @ ''-'' @ drop 6 d)))
      \<and> (length d = 11 \<and> hd d = CHR ''1'' \<longrightarrow>
           format_phone_number (PStr s) =
             Inr (PStr (''('' @ take 3 (tl d) @ '') '' @ take 3 (drop 3 (tl d)) @ ''-'' @
                        drop 6 (tl d))))
      \<and> (length d \<noteq> 10 \<and> \<not> (length d = 11 \<and> hd d = CHR ''1'') \<longrightarrow>
           format_phone_number (PStr s) = Inr (PStr s))"
      using p1 p2 p3 unfolding d_def Let_def by blast
  qed
  show ?thesis using e1 e2 e3 g by blast
qed

theorem format_phone_number_examples_witness:
  "length (filter is_decimal ''555-123-4567'') = 10
   \<and> format_phone_number (PStr ''555-123-4567'') = Inr (PStr ''(555) 123-4567'')
   \<and> length (filter is_decimal ''1 555 123 4567'') = 11
   \<and> hd (filter is_decimal ''1 555 123 4567'') = CHR ''1''
   \<and> format_phone_number (PStr ''1 555 123 4567'') = Inr (PStr ''(555) 123-4567'')
   \<and> length (filter is_decimal ''12345'') \<noteq> 10
   \<and> \<not> (length (filter is_decimal ''12345'') = 11 \<and> hd (filter is_decimal ''12345'') = CHR ''1'')
   \<and> format_phone_number (PStr ''12345'') = Inr (PStr ''12345'')"
proof -
  have g: "\<And>s. let d = filter is_decimal s in
        (length d = 10 \<longrightarrow>
           format_phone_number (PStr s) =
             Inr (PStr (''('' @ take 3 d @ '') '' @ take 3 (drop 3 d) @ ''-'' @ drop 6 d)))
      \<and> (length d = 11 \<and> hd d = CHR ''1'' \<longrightarrow>
           format_phone_number (PStr s) =
             Inr (PStr (''('' @ take 3 (tl d) @ '') '' @ take 3 (drop 3 (tl d)) @ ''-'' @
                        drop 6 (tl d))))
      \<and> (length d \<noteq> 10 \<and> \<not> (length d = 11 \<and> hd d = CHR ''1'') \<longrightarrow>
           format_phone_number (PStr s) = Inr (PStr s))"
    using format_phone_number_examples by blast
  show ?thesis
    using g [of "''555-123-4567''"] g [of "''1 555 123 4567''"] g [of "''12345''"]
    by (simp add: Let_def is_decimal_def)
qed

lemma format_phone_number_grouped:
  assumes "\<forall>c \<in> set d. is_decimal c" and "length d = 10"
  shows "format_phone_number
           (PStr (''('' @ take 3 d @ '') '' @ take 3 (drop 3 d) @ ''-'' @ drop 6 d)) =
         Inr (PStr (''('' @ take 3 d @ '') '' @ take 3 (drop 3 d) @ ''-'' @ drop 6 d))"
proof -
  have "re_sub_nondigits
          (PStr (''('' @ take 3 d @ '') '' @ take 3 (drop 3 d) @ ''-'' @ drop 6 d)) = Inr d"
    unfolding re_sub_nondigits_def using grouped_digits [OF assms(1)] by simp
  then show ?thesis
    using assms(2) by (simp add: format_phone_number_def)
qed

lemma drop_as_tl:
  "drop 1 d = tl d" "drop 4 d = drop 3 (tl d)" "drop 7 d = drop 6 (tl d)"
  by (cases d; simp)+

text \<open>
  C10. \<open>format_phone_number\<close> is idempotent on strings: the call on a string returns a
  string, and the call on that string returns it again.
\<close>

theorem format_phone_number_idempotent:
  "\<exists>t. format_phone_number (PStr s) = Inr (PStr t)
      \<and> format_phone_number (PStr t) = Inr (PStr t)"
proof -
  define d where "d = filter is_decimal s"
  have dec: "\<forall>c \<in> set d. is_decimal c"
    unfolding d_def by simp
  have sub: "re_sub_nondigits (PStr s) = Inr d"
    by (simp add: re_sub_nondigits_def d_def)
  consider (empty) "s = []"
    | (ten) "s \<noteq> []" "length d = 10"
    | (eleven) "s \<noteq> []" "length d \<noteq> 10" "length d = 11 \<and> d ! 0 = CHR ''1''"
    | (other) "s \<noteq> []" "length d \<noteq> 10" "\<not> (length d = 11 \<and> d ! 0 = CHR ''1'')"
    by blast
  then show ?thesis
  proof cases
    case empty
    then show ?thesis by (simp add: format_phone_number_def)
  next
    case ten
    have "format_phone_number (PStr s) =
            Inr (PStr (''('' @ take 3 d @ '') '' @ take 3 (drop 3 d) @ ''-'' @ drop 6 d))"
      using ten sub by (simp add: format_phone_number_def)
    then show ?thesis
      using format_phone_number_grouped [OF dec ten(2)] by blast
  next
    case eleven
    have dec': "\<forall>c \<in> set (tl d). is_decimal c"
      using dec by (metis list.sel(2) list.set_sel(2))
    have len': "length (tl d) = 10"
      using eleven by simp
    have "format_phone_number (PStr s) =
            Inr (PStr (''('' @ take 3 (tl d) @ '') '' @ take 3 (drop 3 (tl d)) @ ''-'' @
                       drop 6 (tl d)))"
      using eleven sub drop_as_tl [of d] by (simp add: format_phone_number_def)
    then show ?thesis
      using format_phone_number_grouped [OF dec' len'] by blast
  next
    case other
    have "format_phone_number (PStr s) = Inr (PStr s)"
      using other sub by (cases "length d = 11") (simp_all add: format_phone_number_def)
    then show ?thesis by blast
  qed
qed

end
